theory Spec2Isabelle
  imports Main
begin

section \<open>Errors, promises and host objects\<close>

text \<open>
  The web typings installer (\<^verbatim>\<open>web/typingsInstaller.ts\<close>) is written against promises and
  callbacks. A thrown JavaScript exception is a value of type \<open>error\<close>; a function that may
  throw returns \<open>error + 'a\<close>, with \<open>Inl\<close> for the exception. For an \<^verbatim>\<open>async\<close> function
  the same sum is the settlement of the promise it returns: \<open>Inl\<close> is the rejection.
\<close>

datatype error =
    Error string   \<comment> \<open>\<^verbatim>\<open>new Error(message)\<close>\<close>
  | TypeError      \<comment> \<open>a member access on \<^verbatim>\<open>undefined\<close>\<close>

datatype 'a promise = Pending | Fulfilled 'a | Rejected error

text \<open>
  The types registry, \<^verbatim>\<open>Map<string, ts.MapLike<string>>\<close>: package name to its table of
  distribution tags.
\<close>

type_synonym registry = "string \<rightharpoonup> (string \<rightharpoonup> string)"

text \<open>
  A response of the installer. The client only ever inspects the \<^verbatim>\<open>kind\<close> tag; the rest of
  the message is carried as \<open>payload\<close>.
\<close>

record 'p InstallerResponse =
  kind :: string
  payload :: 'p

text \<open>
  \<^verbatim>\<open>ts.server.ProjectService\<close> belongs to the language service. What the installer does to it
  is call \<^verbatim>\<open>updateTypingsForProject\<close>, so it is modelled by the responses it has been handed,
  oldest first.
\<close>

record 'p ProjectService =
  updates :: "'p InstallerResponse list"

definition updateTypingsForProject ::
  "'p ProjectService \<Rightarrow> 'p InstallerResponse \<Rightarrow> 'p ProjectService" where
  "updateTypingsForProject ps response = ps\<lparr>updates := updates ps @ [response]\<rparr>"

text \<open>
  Modelled from the spec: the package-name validity check \<^verbatim>\<open>validatePackageNameWorker\<close> and its
  result enumeration \<^verbatim>\<open>NameValidationResult\<close> live in \<^verbatim>\<open>./jsTyping\<close>, which is not among the
  sources. The check is "a pure function consumed as-is", so it is a parameter of every
  definition that calls it. The source reads the \<^verbatim>\<open>result\<close> member of what the check returns
  and compares it with \<^verbatim>\<open>NameValidationResult.Ok\<close>; \<open>NotOk\<close> stands for every other value.
\<close>

datatype NameValidationResult = Ok | NotOk

record PackageNameValidationResult =
  result :: NameValidationResult

type_synonym validator = "string \<Rightarrow> bool \<Rightarrow> PackageNameValidationResult"

section \<open>WebTypingsInstallerServer: the state the client sees\<close>

text \<open>
  Of the server object the client reads \<^verbatim>\<open>typesRegistry\<close> and calls \<^verbatim>\<open>install(req)\<close>, a method of
  the base class \<^verbatim>\<open>ts.server.typingsInstaller.TypingsInstaller\<close>.
\<close>

text \<open>
  Modelled from the spec: the request queue stands in that base class, which belongs to the
  TypeScript library and is not among the sources. As the coordinator of the spec does,
  \<^verbatim>\<open>install\<close> appends the request to an ordered queue; a request waits while the installs in
  flight fill the slots; the completion of an install frees its slot and lets the oldest
  waiting request start. The number of slots is the throttle limit, which the constructor
  of the server hands to the base class as the last argument of \<^verbatim>\<open>super\<close>; the coordinator of
  the spec is the queue with limit 1. The throttle limit is a JavaScript number: a count of
  slots or \<^verbatim>\<open>Infinity\<close>; \<open>belowLimit n\<close> is the comparison \<^verbatim>\<open>n < limit\<close> and \<open>withinLimit n\<close>
  is \<^verbatim>\<open>n <= limit\<close>.
\<close>

datatype throttle = Limit nat | Infinity

fun belowLimit :: "nat \<Rightarrow> throttle \<Rightarrow> bool" where
  "belowLimit n (Limit k) = (n < k)"
| "belowLimit n Infinity = True"

fun withinLimit :: "nat \<Rightarrow> throttle \<Rightarrow> bool" where
  "withinLimit n (Limit k) = (n \<le> k)"
| "withinLimit n Infinity = True"

text \<open>
  Modelled from the spec: beside the registry, the server holds the queue. \<open>installs\<close> are
  the requests handed to \<^verbatim>\<open>install\<close>, in submission order; a request stands for an install
  for which packages have to be fetched. \<^verbatim>\<open>installWorker\<close> returns as soon as its \<^verbatim>\<open>async\<close>
  body is started, so a request is in flight from that start until \<^verbatim>\<open>onRequestCompleted\<close> is
  called. \<open>queued\<close> holds the waiting requests and \<open>inFlight\<close> the started ones, oldest first.
\<close>

record 'q WebTypingsInstallerServer =
  typesRegistry :: registry
  installs :: "'q list"
  throttleLimit :: throttle
  queued :: "'q list"
  inFlight :: "'q list"

text \<open>
  Modelled from the spec: waiting requests are started oldest first while a slot is free.
\<close>

fun startQueued :: "throttle \<Rightarrow> 'q list \<Rightarrow> 'q list \<Rightarrow> 'q list \<times> 'q list" where
  "startQueued limit running [] = (running, [])"
| "startQueued limit running (req # waiting) =
     (if belowLimit (length running) limit then startQueued limit (running @ [req]) waiting
      else (running, req # waiting))"

text \<open>
  Modelled from the spec: the queue of a server after every request that finds a free slot
  has been started.
\<close>

definition dispatch :: "'q WebTypingsInstallerServer \<Rightarrow> 'q WebTypingsInstallerServer" where
  "dispatch s =
     (let (running, waiting) = startQueued (throttleLimit s) (inFlight s) (queued s)
      in s\<lparr>queued := waiting, inFlight := running\<rparr>)"

text \<open>
  Modelled from the spec: \<^verbatim>\<open>install\<close> is the \<^verbatim>\<open>enqueue\<close> of the coordinator.
\<close>

definition install :: "'q \<Rightarrow> 'q WebTypingsInstallerServer \<Rightarrow> 'q WebTypingsInstallerServer" where
  "install req s = dispatch (s\<lparr>installs := installs s @ [req], queued := queued s @ [req]\<rparr>)"

text \<open>
  Modelled from the spec: the completion report of the worker for \<open>req\<close> ends its time in
  flight.
\<close>

definition requestCompleted ::
  "'q \<Rightarrow> 'q WebTypingsInstallerServer \<Rightarrow> 'q WebTypingsInstallerServer" where
  "requestCompleted req s = dispatch (s\<lparr>inFlight := remove1 req (inFlight s)\<rparr>)"

section \<open>WebTypingsInstallerClient\<close>

text \<open>
  A callback registered on the \<^verbatim>\<open>server\<close> promise with \<^verbatim>\<open>then\<close>:
  \<^item> \<open>SetTypesRegistryCache\<close> is \<^verbatim>\<open>s => this.typesRegistryCache = s.typesRegistry\<close>;
  \<^item> \<open>Install req\<close> is \<^verbatim>\<open>s => s.install(req)\<close>.
\<close>

datatype 'q reaction = SetTypesRegistryCache | Install 'q

text \<open>
  The fields of the client. \<open>server\<close> is the state of the promise returned by
  \<^verbatim>\<open>WebTypingsInstallerServer.initialize\<close>; \<open>reactions\<close> are the callbacks registered on it that
  have not run yet, in registration order.
\<close>

record ('p, 'q) WebTypingsInstallerClient =
  projectService :: "'p ProjectService option"
  requestedRegistry :: bool
  typesRegistryCache :: registry
  server :: "'q WebTypingsInstallerServer promise"
  reactions :: "'q reaction list"

text \<open>
  The constructor: field initialisers, then \<^verbatim>\<open>this.server = WebTypingsInstallerServer.initialize(...)\<close>.
  \<^verbatim>\<open>initialize\<close> is \<^verbatim>\<open>async\<close>, so the promise is pending when the constructor returns.
\<close>

definition new_client :: "('p, 'q) WebTypingsInstallerClient" where
  "new_client =
     \<lparr>projectService = None, requestedRegistry = False, typesRegistryCache = Map.empty,
      server = Pending, reactions = []\<rparr>"

text \<open>
  \<^verbatim>\<open>handleResponse\<close>: the \<^verbatim>\<open>switch\<close> on \<^verbatim>\<open>response.kind\<close>. The non-null assertion
  \<^verbatim>\<open>this.projectService!\<close> is erased by the compiler: with no project service attached the
  call is a member access on \<^verbatim>\<open>undefined\<close>. The function is \<^verbatim>\<open>async\<close>, so \<open>Inl\<close> is the
  rejection of the promise it returns. The message of the default branch interpolates an
  object, which JavaScript renders as \<^verbatim>\<open>[object Object]\<close>.
\<close>

definition handleResponse ::
  "'p InstallerResponse \<Rightarrow> ('p, 'q) WebTypingsInstallerClient
     \<Rightarrow> (error + unit) \<times> ('p, 'q) WebTypingsInstallerClient" where
  "handleResponse response c =
     (if kind response = ''action::packageInstalled''
         \<or> kind response = ''action::invalidate''
         \<or> kind response = ''action::set''
      then (case projectService c of
              None \<Rightarrow> (Inl TypeError, c)
            | Some ps \<Rightarrow>
                (Inr (), c\<lparr>projectService := Some (updateTypingsForProject ps response)\<rparr>))
      else if kind response = ''event::beginInstallTypes''
         \<or> kind response = ''event::endInstallTypes''
      then (Inr (), c)
      else (Inl (Error ''unexpected response: [object Object]''), c))"

text \<open>
  \<^verbatim>\<open>installPackage\<close>: the body is the single \<^verbatim>\<open>throw new Error('not implemented')\<close>. The result
  type \<open>'r\<close> is \<^verbatim>\<open>ts.ApplyCodeActionCommandResult\<close>, which is never produced.
\<close>

definition installPackage ::
  "'o \<Rightarrow> ('p, 'q) WebTypingsInstallerClient
     \<Rightarrow> (error + 'r) \<times> ('p, 'q) WebTypingsInstallerClient" where
  "installPackage options c = (Inl (Error ''not implemented''), c)"

text \<open>
  \<^verbatim>\<open>isKnownTypesPackageName\<close>. \<^verbatim>\<open>typesRegistryCache\<close> always holds a \<^verbatim>\<open>Map\<close> object, so
  \<^verbatim>\<open>!!this.typesRegistryCache\<close> is true and the answer is \<^verbatim>\<open>has(packageName)\<close>.
\<close>

definition isKnownTypesPackageName ::
  "validator \<Rightarrow> string \<Rightarrow> ('p, 'q) WebTypingsInstallerClient
     \<Rightarrow> bool \<times> ('p, 'q) WebTypingsInstallerClient" where
  "isKnownTypesPackageName validatePackageNameWorker packageName c =
     (let looksLikeValidName = validatePackageNameWorker packageName True in
      if result looksLikeValidName \<noteq> Ok then (False, c)
      else if requestedRegistry c then (typesRegistryCache c packageName \<noteq> None, c)
      else (False, c\<lparr>requestedRegistry := True,
                      reactions := reactions c @ [SetTypesRegistryCache]\<rparr>))"

text \<open>
  \<^verbatim>\<open>enqueueInstallTypingsRequest\<close>: \<open>req\<close> is the request built by
  \<^verbatim>\<open>ts.server.createInstallTypingsRequest\<close> from the three arguments.
\<close>

definition enqueueInstallTypingsRequest ::
  "'q \<Rightarrow> ('p, 'q) WebTypingsInstallerClient \<Rightarrow> ('p, 'q) WebTypingsInstallerClient" where
  "enqueueInstallTypingsRequest req c = c\<lparr>reactions := reactions c @ [Install req]\<rparr>"

definition attach ::
  "'p ProjectService \<Rightarrow> ('p, 'q) WebTypingsInstallerClient \<Rightarrow> ('p, 'q) WebTypingsInstallerClient" where
  "attach ps c = c\<lparr>projectService := Some ps\<rparr>"

definition onProjectClosed ::
  "('p, 'q) WebTypingsInstallerClient \<Rightarrow> ('p, 'q) WebTypingsInstallerClient" where
  "onProjectClosed c = c"

subsection \<open>The promise of the server and its callbacks\<close>

text \<open>
  One registered callback, run against the server the promise was fulfilled with.
\<close>

fun react ::
  "('p, 'q) WebTypingsInstallerClient \<times> 'q WebTypingsInstallerServer \<Rightarrow> 'q reaction
     \<Rightarrow> ('p, 'q) WebTypingsInstallerClient \<times> 'q WebTypingsInstallerServer" where
  "react (c, s) SetTypesRegistryCache = (c\<lparr>typesRegistryCache := typesRegistry s\<rparr>, s)"
| "react (c, s) (Install req) = (c, install req s)"

text \<open>
  The microtask checkpoint that follows every synchronous call: on a fulfilled promise the
  registered callbacks run in registration order; on a rejected one they are dropped (the
  source passes no rejection handler to \<^verbatim>\<open>then\<close>); on a pending one they wait.
\<close>

definition runReactions ::
  "('p, 'q) WebTypingsInstallerClient \<Rightarrow> ('p, 'q) WebTypingsInstallerClient" where
  "runReactions c =
     (case server c of
        Pending \<Rightarrow> c
      | Rejected e \<Rightarrow> c\<lparr>reactions := []\<rparr>
      | Fulfilled s \<Rightarrow>
          (let (c', s') = foldl react (c, s) (reactions c)
           in c'\<lparr>server := Fulfilled s', reactions := []\<rparr>))"

text \<open>
  The promise settles once, with the outcome of \<^verbatim>\<open>initialize\<close>; a settled promise stays as
  it is.
\<close>

definition settle ::
  "error + 'q WebTypingsInstallerServer \<Rightarrow> ('p, 'q) WebTypingsInstallerClient
     \<Rightarrow> ('p, 'q) WebTypingsInstallerClient" where
  "settle outcome c =
     (case server c of
        Pending \<Rightarrow> (case outcome of
                      Inl e \<Rightarrow> c\<lparr>server := Rejected e\<rparr>
                    | Inr s \<Rightarrow> c\<lparr>server := Fulfilled s\<rparr>)
      | _ \<Rightarrow> c)"

text \<open>
  What can happen to a client, one event at a time: a call of one of its methods by the
  language service, a response delivered to \<^verbatim>\<open>handleResponse\<close>, the settlement of the
  server promise, or the completion report of an install worker of the server.
\<close>

datatype ('p, 'q) event =
    IsKnownTypesPackageName string
  | EnqueueInstallTypingsRequest 'q
  | Attach "'p ProjectService"
  | OnProjectClosed
  | HandleResponse "'p InstallerResponse"
  | InstallPackage
  | ServerSettled "error + 'q WebTypingsInstallerServer"
  | WorkerCompleted 'q

fun perform ::
  "validator \<Rightarrow> ('p, 'q) WebTypingsInstallerClient \<Rightarrow> ('p, 'q) event
     \<Rightarrow> ('p, 'q) WebTypingsInstallerClient" where
  "perform v c (IsKnownTypesPackageName n) = snd (isKnownTypesPackageName v n c)"
| "perform v c (EnqueueInstallTypingsRequest req) = enqueueInstallTypingsRequest req c"
| "perform v c (Attach ps) = attach ps c"
| "perform v c OnProjectClosed = onProjectClosed c"
| "perform v c (HandleResponse r) = snd (handleResponse r c)"
| "perform v c InstallPackage = snd (installPackage () c :: (error + unit) \<times> _)"
| "perform v c (ServerSettled outcome) = settle outcome c"
| "perform v c (WorkerCompleted req) =
     (case server c of
        Fulfilled s \<Rightarrow> c\<lparr>server := Fulfilled (requestCompleted req s)\<rparr>
      | _ \<Rightarrow> c)"

definition step ::
  "validator \<Rightarrow> ('p, 'q) WebTypingsInstallerClient \<Rightarrow> ('p, 'q) event
     \<Rightarrow> ('p, 'q) WebTypingsInstallerClient" where
  "step v c e = runReactions (perform v c e)"

definition run ::
  "validator \<Rightarrow> ('p, 'q) event list \<Rightarrow> ('p, 'q) WebTypingsInstallerClient
     \<Rightarrow> ('p, 'q) WebTypingsInstallerClient" where
  "run v es c = foldl (step v) c es"

section \<open>WebTypingsInstallerServer: initialisation and the install worker\<close>

text \<open>
  \<^verbatim>\<open>ts.server.ServerHost\<close>, as far as the installer uses it: a file store with \<^verbatim>\<open>fileExists\<close>,
  \<^verbatim>\<open>writeFile\<close> and \<^verbatim>\<open>readFile\<close> (which answers \<^verbatim>\<open>undefined\<close> for a missing file).
\<close>

type_synonym ServerHost = "string \<rightharpoonup> string"

definition fileExists :: "ServerHost \<Rightarrow> string \<Rightarrow> bool" where
  "fileExists fs path = (fs path \<noteq> None)"

definition writeFile :: "ServerHost \<Rightarrow> string \<Rightarrow> string \<Rightarrow> ServerHost" where
  "writeFile fs path data = fs(path \<mapsto> data)"

definition readFile :: "ServerHost \<Rightarrow> string \<Rightarrow> string option" where
  "readFile fs path = fs path"

text \<open>
  The package manager of \<^verbatim>\<open>@vscode/ts-package-manager\<close> is an external collaborator built on
  the same host (\<^verbatim>\<open>new PackageManager(fs)\<close>): \<^verbatim>\<open>resolveProject\<close> answers a handle \<open>'h\<close> or
  fails, \<^verbatim>\<open>restore\<close> on the handle succeeds or fails, and both may change the files.
\<close>

datatype PackageType = DevDependency

record ResolveOptions =
  addPackages :: "string list"
  packageType :: "PackageType option"

record 'h PackageManager =
  resolveProject :: "ServerHost \<Rightarrow> string \<Rightarrow> ResolveOptions \<Rightarrow> (error + 'h) \<times> ServerHost"
  restore :: "'h \<Rightarrow> ServerHost \<Rightarrow> (error + unit) \<times> ServerHost"

text \<open>
  The library functions the server calls: \<^verbatim>\<open>join\<close> of \<^verbatim>\<open>path\<close>, \<^verbatim>\<open>String.prototype.trim\<close>,
  \<^verbatim>\<open>JSON.parse\<close> (which throws on malformed text) and \<^verbatim>\<open>Object.entries(index.entries)\<close> on the
  parsed value \<open>'j\<close> (which throws when the index has no \<^verbatim>\<open>entries\<close>).
\<close>

record 'j library =
  join :: "string \<Rightarrow> string \<Rightarrow> string"
  trim :: "string \<Rightarrow> string"
  JSON_parse :: "string \<Rightarrow> error + 'j"
  Object_entries :: "'j \<Rightarrow> error + (string \<times> (string \<rightharpoonup> string)) list"

text \<open>
  What the server does to its collaborators, in program order. A resolution carries the
  files as they are when the package manager is asked.
\<close>

datatype effect =
    WriteFile string string
  | ResolveProject ServerHost string ResolveOptions
  | Restore

definition typesRegistryPackageName :: string where
  "typesRegistryPackageName = ''types-registry''"

text \<open>
  \<^verbatim>\<open>readJson\<close>: \<^verbatim>\<open>!data\<close> holds for \<^verbatim>\<open>undefined\<close> and for the empty string.
\<close>

definition readJson :: "'j library \<Rightarrow> ServerHost \<Rightarrow> string \<Rightarrow> error + 'j" where
  "readJson lib fs path =
     (case readFile fs path of
        None \<Rightarrow> Inl (Error (''Failed to read file: '' @ path))
      | Some data \<Rightarrow>
          if data = [] then Inl (Error (''Failed to read file: '' @ path))
          else JSON_parse lib (trim lib data))"

text \<open>
  The result of an \<^verbatim>\<open>async\<close> function of the server, run to its end: the effects in
  order, the files afterwards and the settlement of the promise.
\<close>

record 'a task =
  effects :: "effect list"
  host :: ServerHost
  outcome :: "error + 'a"

text \<open>
  \<^verbatim>\<open>initialize\<close>. The loop over \<^verbatim>\<open>Object.entries\<close> sets the entries in order, a later one
  replacing an earlier one of the same name. The private constructor hands \<^verbatim>\<open>Infinity\<close> to the
  base class as the throttle limit; the new server has nothing queued and nothing in flight.
\<close>

definition initialize ::
  "'j library \<Rightarrow> 'h PackageManager \<Rightarrow> ServerHost \<Rightarrow> string \<Rightarrow> 'q WebTypingsInstallerServer task" where
  \<open>initialize lib pm fs globalTypingsCachePath =
     (let pkgJson = join lib globalTypingsCachePath ''package.json'';
          (written, fs0) =
             (if \<not> fileExists fs pkgJson
              then ([WriteFile pkgJson ''{"private":true}''],
                    writeFile fs pkgJson ''{"private":true}'')
              else ([], fs));
          options = \<lparr>addPackages = [typesRegistryPackageName], packageType = None\<rparr>;
          asked = written @ [ResolveProject fs0 globalTypingsCachePath options]
      in case resolveProject pm fs0 globalTypingsCachePath options of
           (Inl e, fs1) \<Rightarrow> \<lparr>effects = asked, host = fs1, outcome = Inl e\<rparr>
         | (Inr resolved, fs1) \<Rightarrow>
             (case restore pm resolved fs1 of
                (Inl e, fs2) \<Rightarrow> \<lparr>effects = asked @ [Restore], host = fs2, outcome = Inl e\<rparr>
              | (Inr u, fs2) \<Rightarrow>
                  (let indexPath =
                         join lib globalTypingsCachePath ''node_modules/types-registry/index.json''
                   in case readJson lib fs2 indexPath of
                        Inl e \<Rightarrow> \<lparr>effects = asked @ [Restore], host = fs2, outcome = Inl e\<rparr>
                      | Inr index \<Rightarrow>
                          (case Object_entries lib index of
                             Inl e \<Rightarrow>
                               \<lparr>effects = asked @ [Restore], host = fs2, outcome = Inl e\<rparr>
                           | Inr entries \<Rightarrow>
                               \<lparr>effects = asked @ [Restore], host = fs2,
                                outcome =
                                  Inr \<lparr>typesRegistry =
                                         foldl (\<lambda>registry (packageName, entry).
                                                  registry(packageName \<mapsto> entry))
                                               Map.empty entries,
                                       installs = [], throttleLimit = Infinity,
                                       queued = [], inFlight = []\<rparr>\<rparr>))))\<close>

text \<open>
  \<^verbatim>\<open>installWorker\<close>. The method logs, starts the \<^verbatim>\<open>async\<close> arrow function and returns; the
  promise of the arrow function is dropped. \<open>thrown\<close> is the exception that reaches the
  caller of \<^verbatim>\<open>installWorker\<close>, \<open>settled\<close> the settlement of the dropped promise and
  \<open>reports\<close> the arguments \<^verbatim>\<open>onRequestCompleted\<close> was called with, in order. The completion
  callback is the caller's function and may itself throw; \<^verbatim>\<open>onRequestCompleted(true)\<close> stands
  inside the \<^verbatim>\<open>try\<close> block, \<^verbatim>\<open>onRequestCompleted(false)\<close> inside the \<^verbatim>\<open>catch\<close> block.
\<close>

record installation =
  thrown :: "error option"
  settled :: "error + unit"
  reports :: "bool list"
  files :: ServerHost

definition installWorker ::
  "'h PackageManager \<Rightarrow> ServerHost \<Rightarrow> int \<Rightarrow> string list \<Rightarrow> string
     \<Rightarrow> (bool \<Rightarrow> error + unit) \<Rightarrow> installation" where
  "installWorker pm fs requestId packageNames cwd onRequestCompleted =
     (let options = \<lparr>addPackages = packageNames, packageType = Some DevDependency\<rparr>;
          catch = (\<lambda>reported fs'.
             \<lparr>thrown = None, settled = onRequestCompleted False,
              reports = reported @ [False], files = fs'\<rparr>)
      in case resolveProject pm fs cwd options of
           (Inl e, fs1) \<Rightarrow> catch [] fs1
         | (Inr resolved, fs1) \<Rightarrow>
             (case restore pm resolved fs1 of
                (Inl e, fs2) \<Rightarrow> catch [] fs2
              | (Inr u, fs2) \<Rightarrow>
                  (case onRequestCompleted True of
                     Inl e \<Rightarrow> catch [True] fs2
                   | Inr u' \<Rightarrow>
                       \<lparr>thrown = None, settled = Inr (), reports = [True], files = fs2\<rparr>)))"

text \<open>
  \<^verbatim>\<open>sendResponse\<close> hands the response to the client's \<^verbatim>\<open>handleResponse\<close> and drops the promise
  it returns.
\<close>

definition sendResponse ::
  "'p InstallerResponse \<Rightarrow> ('p, 'q) WebTypingsInstallerClient \<Rightarrow> ('p, 'q) WebTypingsInstallerClient" where
  "sendResponse response c = snd (handleResponse response c)"

text \<open>
  Both \<^verbatim>\<open>initialize\<close> and \<^verbatim>\<open>installWorker\<close> ask the package manager to resolve and then to
  restore. \<open>resolveAndRestore\<close> is what the package manager answers and what it leaves in the
  file store when it is asked so on the files \<open>fs\<close>.
\<close>

definition resolveAndRestore ::
  "'h PackageManager \<Rightarrow> ServerHost \<Rightarrow> string \<Rightarrow> ResolveOptions \<Rightarrow> (error + unit) \<times> ServerHost" where
  "resolveAndRestore pm fs cwd options =
     (case resolveProject pm fs cwd options of
        (Inl e, fs1) \<Rightarrow> (Inl e, fs1)
      | (Inr resolved, fs1) \<Rightarrow> restore pm resolved fs1)"

section \<open>Named values of the source\<close>

text \<open>
  The sixth member of the union \<^verbatim>\<open>InstallerResponse\<close>, \<^verbatim>\<open>ts.server.WatchTypingLocations\<close>. Its tag
  is declared by the TypeScript server library, which the source imports:
  \<^verbatim>\<open>action::watchTypingLocations\<close>.
\<close>

definition ActionWatchTypingLocations :: string where
  "ActionWatchTypingLocations = ''action::watchTypingLocations''"

definition WatchTypingLocations :: "'p \<Rightarrow> 'p InstallerResponse" where
  "WatchTypingLocations p = \<lparr>kind = ActionWatchTypingLocations, payload = p\<rparr>"

text \<open>The text \<^verbatim>\<open>initialize\<close> writes as the minimal manifest.\<close>

definition privateManifest :: string where
  \<open>privateManifest = ''{"private":true}''\<close>

section \<open>The three phases of the server promise, seen from the client\<close>

text \<open>
  \<open>waiting\<close>: the promise is pending and the cache is the empty map of the field
  initialiser. \<open>settledWith R asked\<close>: the promise is fulfilled with a server whose registry
  is \<open>R\<close>, the callbacks have run, and the cache is \<open>R\<close> if the registry has been asked for
  and still empty if not. \<open>failed\<close>: the promise is rejected and the cache is still empty.
\<close>

definition waiting :: "('p, 'q) WebTypingsInstallerClient \<Rightarrow> bool" where
  "waiting c \<longleftrightarrow> server c = Pending \<and> typesRegistryCache c = Map.empty"


definition failed :: "('p, 'q) WebTypingsInstallerClient \<Rightarrow> bool" where
  "failed c \<longleftrightarrow> (\<exists>e. server c = Rejected e) \<and> typesRegistryCache c = Map.empty"

section \<open>The client together with the load its constructor starts\<close>








section \<open>Example collaborators\<close>

text \<open>
  Concrete collaborators on which the definitions can be evaluated: a validity check that
  rejects the empty name, a library whose paths are joined with a slash, a package manager
  whose operations succeed and leave the files alone, a file store that holds a registry
  index, and a registry that knows one package.
\<close>

definition example_validator :: validator where
  "example_validator packageName supportScopedPackage =
     \<lparr>result = (if packageName = [] then NotOk else Ok)\<rparr>"

definition example_library :: "string library" where
  "example_library =
     \<lparr>join = (\<lambda>a b. a @ ''/'' @ b), trim = (\<lambda>s. s), JSON_parse = (\<lambda>s. Inr s),
      Object_entries = (\<lambda>j. Inr [(j, Map.empty)])\<rparr>"

definition example_packageManager :: "unit PackageManager" where
  "example_packageManager =
     \<lparr>resolveProject = (\<lambda>fs root options. (Inr (), fs)),
      restore = (\<lambda>resolved fs. (Inr (), fs))\<rparr>"


definition example_registry :: registry where
  "example_registry = [''node'' \<mapsto> [''latest'' \<mapsto> ''20.0.0'']]"

definition example_server :: "unit WebTypingsInstallerServer" where
  "example_server =
     \<lparr>typesRegistry = example_registry, installs = [], throttleLimit = Infinity,
      queued = [], inFlight = []\<rparr>"

definition example_client :: "(unit, unit) WebTypingsInstallerClient" where
  "example_client = new_client\<lparr>requestedRegistry := True, typesRegistryCache := example_registry\<rparr>"

section \<open>The request queue\<close>


lemma startQueued_within_limit:
  "withinLimit (length running) limit
   \<Longrightarrow> withinLimit (length (fst (startQueued limit running qs))) limit"
proof (induction qs arbitrary: running)
  case Nil
  then show ?case by simp
next
  case (Cons req qs)
  show ?case
  proof (cases "belowLimit (length running) limit")
    case True
    then have "withinLimit (length (running @ [req])) limit"
      by (cases limit) simp_all
    from Cons.IH [OF this] True show ?thesis by simp
  next
    case False
    with Cons.prems show ?thesis by simp
  qed
qed

lemma dispatch_fields:
  "typesRegistry (dispatch s) = typesRegistry s"
  "installs (dispatch s) = installs s"
  "throttleLimit (dispatch s) = throttleLimit s"
  by (simp_all add: dispatch_def Let_def split: prod.splits)


lemma dispatch_within_limit:
  "withinLimit (length (inFlight s)) (throttleLimit s)
   \<Longrightarrow> withinLimit (length (inFlight (dispatch s))) (throttleLimit s)"
  using startQueued_within_limit [of "inFlight s" "throttleLimit s" "queued s"]
  by (cases "startQueued (throttleLimit s) (inFlight s) (queued s)") (simp add: dispatch_def)



lemma install_within_limit:
  "withinLimit (length (inFlight s)) (throttleLimit s)
   \<Longrightarrow> withinLimit (length (inFlight (install req s))) (throttleLimit s)"
  using dispatch_within_limit [of "s\<lparr>installs := installs s @ [req], queued := queued s @ [req]\<rparr>"]
  by (simp add: install_def dispatch_fields)



lemma withinLimit_mono: "m \<le> n \<Longrightarrow> withinLimit n limit \<Longrightarrow> withinLimit m limit"
  by (cases limit) simp_all

lemma requestCompleted_within_limit:
  assumes "withinLimit (length (inFlight s)) (throttleLimit s)"
  shows "withinLimit (length (inFlight (requestCompleted req s))) (throttleLimit s)"
proof -
  have "length (remove1 req (inFlight s)) \<le> length (inFlight s)"
    by (simp add: length_remove1)
  then have "withinLimit (length (remove1 req (inFlight s))) (throttleLimit s)"
    using assms by (rule withinLimit_mono)
  then show ?thesis
    using dispatch_within_limit [of "s\<lparr>inFlight := remove1 req (inFlight s)\<rparr>"]
    by (simp add: requestCompleted_def dispatch_fields)
qed

section \<open>Runs of events\<close>

lemma run_Nil: "run v [] c = c"
  by (simp add: run_def)

lemma run_Cons: "run v (e # es) c = run v es (step v c e)"
  by (simp add: run_def)

lemma run_append: "run v (es @ fs) c = run v fs (run v es c)"
  by (simp add: run_def)


lemma foldl_react_projectService:
  "projectService (fst (foldl react (c, s) rs)) = projectService c"
proof (induction rs arbitrary: c s)
  case Nil
  then show ?case by simp
next
  case (Cons r rs)
  then show ?case by (cases r) simp_all
qed

lemma runReactions_projectService: "projectService (runReactions c) = projectService c"
proof (cases "server c")
  case (Fulfilled s)
  obtain c' s' where f: "foldl react (c, s) (reactions c) = (c', s')"
    by (cases "foldl react (c, s) (reactions c)")
  with foldl_react_projectService [of c s "reactions c"] have "projectService c' = projectService c"
    by simp
  with Fulfilled f show ?thesis by (simp add: runReactions_def)
qed (simp_all add: runReactions_def)

lemmas perform_unfold =
  isKnownTypesPackageName_def Let_def enqueueInstallTypingsRequest_def attach_def
  onProjectClosed_def handleResponse_def installPackage_def settle_def

lemma perform_projectService_None:
  "projectService (perform v c e) = None \<longleftrightarrow> projectService c = None \<and> (\<forall>ps. e \<noteq> Attach ps)"
  by (cases e) (auto simp: perform_unfold split: option.splits promise.splits sum.splits)

lemma step_projectService_None:
  "projectService (step v c e) = None \<longleftrightarrow> projectService c = None \<and> (\<forall>ps. e \<noteq> Attach ps)"
  by (simp add: step_def runReactions_projectService perform_projectService_None)

lemma run_projectService_None:
  "projectService (run v es c) = None \<longleftrightarrow> projectService c = None \<and> (\<forall>ps. Attach ps \<notin> set es)"
  by (induction es arbitrary: c) (auto simp: run_Nil run_Cons step_projectService_None)



lemma runReactions_Pending: "server c = Pending \<Longrightarrow> runReactions c = c"
  by (simp add: runReactions_def)

lemma runReactions_Rejected:
  "server c = Rejected e \<Longrightarrow> runReactions c = c\<lparr>reactions := []\<rparr>"
  by (simp add: runReactions_def)



lemma perform_server_Pending:
  "server c = Pending \<Longrightarrow> \<forall>out. e \<noteq> ServerSettled out \<Longrightarrow> server (perform v c e) = Pending"
  by (cases e) (auto simp: perform_unfold split: option.splits promise.splits sum.splits)

lemma perform_server_Rejected:
  "server c = Rejected x \<Longrightarrow> server (perform v c e) = Rejected x"
  by (cases e) (auto simp: perform_unfold split: option.splits promise.splits sum.splits)


lemma perform_typesRegistryCache: "typesRegistryCache (perform v c e) = typesRegistryCache c"
  by (cases e) (auto simp: perform_unfold split: option.splits promise.splits sum.splits)










lemma step_waiting:
  "waiting c \<Longrightarrow> \<forall>out. e \<noteq> ServerSettled out \<Longrightarrow> waiting (step v c e)"
  by (simp add: waiting_def step_def perform_server_Pending perform_typesRegistryCache
        runReactions_Pending)

lemma run_waiting:
  "waiting c \<Longrightarrow> \<forall>out. ServerSettled out \<notin> set es \<Longrightarrow> waiting (run v es c)"
proof (induction es arbitrary: c)
  case Nil
  then show ?case by (simp add: run_Nil)
next
  case (Cons e es)
  have ns: "\<forall>out. e \<noteq> ServerSettled out" using Cons.prems(2) by auto
  have "waiting (step v c e)"
    using step_waiting [OF Cons.prems(1) ns] .
  then show ?case
    using Cons.IH [of "step v c e"] Cons.prems(2) by (simp add: run_Cons)
qed




lemma step_failed: "failed c \<Longrightarrow> failed (step v c e)"
proof -
  assume f: "failed c"
  then obtain x where x: "server c = Rejected x" by (auto simp: failed_def)
  have "server (perform v c e) = Rejected x" using x by (rule perform_server_Rejected)
  then show ?thesis
    using f by (simp add: failed_def step_def runReactions_Rejected perform_typesRegistryCache)
qed


lemma run_failed: "failed c \<Longrightarrow> failed (run v es c)"
  by (induction es arbitrary: c) (simp_all add: run_Nil run_Cons step_failed)

lemma step_settle_failed: "waiting c \<Longrightarrow> failed (step v c (ServerSettled (Inl x)))"
  by (simp add: waiting_def failed_def step_def settle_def runReactions_Rejected)


lemma isKnown_empty_cache:
  "typesRegistryCache c = Map.empty \<Longrightarrow> fst (isKnownTypesPackageName v n c) = False"
  by (simp add: isKnownTypesPackageName_def Let_def)

lemma waiting_new: "waiting new_client"
  by (simp add: waiting_def new_client_def)




section \<open>The server\<close>

lemma privateManifest_text: \<open>privateManifest = ''{"private":true}''\<close>
  by (simp add: privateManifest_def)





lemma readJson_missing:
  "readFile fs path = None \<Longrightarrow> readJson lib fs path = Inl (Error (''Failed to read file: '' @ path))"
  by (simp add: readJson_def)

lemma installWorker_thrown: "thrown (installWorker pm fs requestId packageNames cwd cb) = None"
  by (simp add: installWorker_def Let_def split: prod.splits sum.splits)

lemma installWorker_reports:
  "reports (installWorker pm fs requestId packageNames cwd cb) =
     (if \<exists>resolved fs1.
            resolveProject pm fs cwd \<lparr>addPackages = packageNames, packageType = Some DevDependency\<rparr>
              = (Inr resolved, fs1)
            \<and> fst (restore pm resolved fs1) = Inr ()
      then (if isl (cb True) then [True, False] else [True])
      else [False])"
  by (auto simp: installWorker_def Let_def split: prod.splits sum.splits)

lemma installWorker_settled:
  "\<forall>ok. cb ok = Inr () \<Longrightarrow> settled (installWorker pm fs requestId packageNames cwd cb) = Inr ()"
  by (auto simp: installWorker_def Let_def split: prod.splits sum.splits)



section \<open>Overlapping install requests\<close>




section \<open>The install worker\<close>

text \<open>
  C2. \<^verbatim>\<open>installWorker\<close> never throws to its caller; a failure of resolution or of restore is
  reported once, with \<open>False\<close>; success is reported with \<open>True\<close>
  (\<open>installWorker_thrown\<close>, \<open>installWorker_reports\<close>). The report of success is made inside
  the \<^verbatim>\<open>try\<close> block, though: when the callback throws on \<open>True\<close>, the \<^verbatim>\<open>catch\<close> block
  calls it again with \<open>False\<close>, and one invocation makes two completion reports.
\<close>

theorem installWorker_reports_twice:
  "reports (installWorker example_packageManager Map.empty 1 [''left-pad''] ''/cache''
              (\<lambda>ok. if ok then Inl (Error ''listener failed'') else Inr ())) = [True, False]"
  by (simp add: installWorker_def example_packageManager_def)

section \<open>Known package names\<close>

text \<open>
  C3. Whatever the state of the client (registry not asked for, pending, loaded or failed),
  \<^verbatim>\<open>isKnownTypesPackageName\<close> answers true only for a name that passes the validity check, and
  for a name that fails the check it answers false and leaves the client as it was.
\<close>

theorem isKnownTypesPackageName_requires_valid_name:
  "(fst (isKnownTypesPackageName v n c) \<longrightarrow> result (v n True) = Ok)
   \<and> (result (v n True) \<noteq> Ok \<longrightarrow> isKnownTypesPackageName v n c = (False, c))"
  by (simp add: isKnownTypesPackageName_def Let_def)

theorem isKnownTypesPackageName_requires_valid_name_witness:
  "fst (isKnownTypesPackageName example_validator ''node'' example_client)
   \<and> result (example_validator ''node'' True) = Ok
   \<and> result (example_validator [] True) \<noteq> Ok
   \<and> isKnownTypesPackageName example_validator [] example_client = (False, example_client)"
  using isKnownTypesPackageName_requires_valid_name [of example_validator "''node''" example_client]
    isKnownTypesPackageName_requires_valid_name [of example_validator "[]" example_client]
  by (simp add: isKnownTypesPackageName_def Let_def new_client_def example_validator_def
        example_registry_def example_client_def)




text \<open>
  C6. When \<^verbatim>\<open>initialize\<close> fails (for one, because \<^verbatim>\<open>readJson\<close> cannot read the registry index),
  the server promise is rejected. From then on, whatever events follow, every call of
  \<^verbatim>\<open>isKnownTypesPackageName\<close> answers false, for every name; it answers with a value, the
  function has no throwing branch. The client never starts a second load, so no later event
  changes this.
\<close>

theorem isKnownTypesPackageName_after_failed_load:
  fixes lib :: "'j library" and pm :: "'h PackageManager"
    and before after :: "('p, 'q) event list"
  assumes "\<forall>out. ServerSettled out \<notin> set before"
    and "isl (outcome (initialize lib pm fs root :: 'q WebTypingsInstallerServer task))"
  shows "fst (isKnownTypesPackageName v n
               (run v (before @ ServerSettled (outcome (initialize lib pm fs root)) # after)
                  new_client)) = False"
proof -
  obtain x where x: "outcome (initialize lib pm fs root :: 'q WebTypingsInstallerServer task) = Inl x"
    using assms(2) by (auto simp: isl_def)
  have "waiting (run v before (new_client :: ('p, 'q) WebTypingsInstallerClient))"
    using run_waiting [OF waiting_new assms(1)] .
  then have "failed (step v (run v before (new_client :: ('p, 'q) WebTypingsInstallerClient))
                       (ServerSettled (Inl x)))"
    by (rule step_settle_failed)
  then have "failed (run v (before @ ServerSettled (Inl x) # after)
                       (new_client :: ('p, 'q) WebTypingsInstallerClient))"
    by (simp add: run_append run_Cons run_failed)
  then show ?thesis by (simp add: x failed_def isKnown_empty_cache)
qed

theorem isKnownTypesPackageName_after_failed_load_witness:
  "isl (outcome (initialize example_library example_packageManager Map.empty ''/cache''
                   :: unit WebTypingsInstallerServer task))
   \<and> fst (isKnownTypesPackageName example_validator ''node''
        (run example_validator
           ([IsKnownTypesPackageName ''node'']
             @ ServerSettled
                 (outcome (initialize example_library example_packageManager Map.empty ''/cache''))
             # [IsKnownTypesPackageName ''node'', ServerSettled (Inr example_server)])
           (new_client :: (unit, unit) WebTypingsInstallerClient))) = False"
proof -
  have h: "isl (outcome (initialize example_library example_packageManager Map.empty ''/cache''
                   :: unit WebTypingsInstallerServer task))"
    by (simp add: initialize_def Let_def example_library_def example_packageManager_def
          fileExists_def writeFile_def readJson_def readFile_def)
  show ?thesis
    using h isKnownTypesPackageName_after_failed_load
      [of "[IsKnownTypesPackageName ''node''] :: (unit, unit) event list"
          example_library example_packageManager Map.empty "''/cache''"
          example_validator "''node''"
          "[IsKnownTypesPackageName ''node'', ServerSettled (Inr example_server)]"]
    by simp
qed

section \<open>Initialisation\<close>

text \<open>
  C5. \<^verbatim>\<open>initialize\<close> looks for \<^verbatim>\<open>package.json\<close> under the global typings cache root before it
  does anything else. When the file is missing, the first effect is writing the minimal
  manifest \<^verbatim>\<open>{"private":true}\<close> there; the package manager is then asked to resolve and
  restore on the file store that holds this manifest, and what it leaves is the file store
  after \<^verbatim>\<open>initialize\<close>. When the file exists, nothing is written: the package manager is asked
  on the file store as it was. In both cases a failure of the package manager is the outcome
  of \<^verbatim>\<open>initialize\<close>, and \<^verbatim>\<open>initialize\<close> itself writes nothing more.
\<close>

theorem initialize_creates_manifest:
  fixes lib :: "'j library" and pm :: "'h PackageManager"
  shows "(\<not> fileExists fs (join lib root ''package.json'') \<longrightarrow>
            (\<exists>rest. effects (initialize lib pm fs root :: 'q WebTypingsInstallerServer task) =
                      WriteFile (join lib root ''package.json'') privateManifest
                      # ResolveProject (fs(join lib root ''package.json'' \<mapsto> privateManifest)) root
                          \<lparr>addPackages = [''types-registry''], packageType = None\<rparr>
                      # rest
                    \<and> set rest \<subseteq> {Restore})
            \<and> host (initialize lib pm fs root :: 'q WebTypingsInstallerServer task) =
                snd (resolveAndRestore pm (fs(join lib root ''package.json'' \<mapsto> privateManifest)) root
                       \<lparr>addPackages = [''types-registry''], packageType = None\<rparr>)
            \<and> (\<forall>e. fst (resolveAndRestore pm
                            (fs(join lib root ''package.json'' \<mapsto> privateManifest)) root
                            \<lparr>addPackages = [''types-registry''], packageType = None\<rparr>) = Inl e
                 \<longrightarrow> outcome (initialize lib pm fs root :: 'q WebTypingsInstallerServer task) = Inl e))
       \<and> (fileExists fs (join lib root ''package.json'') \<longrightarrow>
            (\<exists>rest. effects (initialize lib pm fs root :: 'q WebTypingsInstallerServer task) =
                      ResolveProject fs root
                          \<lparr>addPackages = [''types-registry''], packageType = None\<rparr>
                      # rest
                    \<and> set rest \<subseteq> {Restore})
            \<and> host (initialize lib pm fs root :: 'q WebTypingsInstallerServer task) =
                snd (resolveAndRestore pm fs root
                       \<lparr>addPackages = [''types-registry''], packageType = None\<rparr>)
            \<and> (\<forall>e. fst (resolveAndRestore pm fs root
                            \<lparr>addPackages = [''types-registry''], packageType = None\<rparr>) = Inl e
                 \<longrightarrow> outcome (initialize lib pm fs root :: 'q WebTypingsInstallerServer task) = Inl e))"
  by (auto simp: initialize_def Let_def writeFile_def typesRegistryPackageName_def
           privateManifest_text resolveAndRestore_def split: prod.splits sum.splits)

theorem initialize_creates_manifest_witness:
  "\<not> fileExists Map.empty (join example_library ''/cache'' ''package.json'')
   \<and> fileExists [''/cache/package.json'' \<mapsto> ''{}''] (join example_library ''/cache'' ''package.json'')
   \<and> host (initialize example_library example_packageManager Map.empty ''/cache''
             :: unit WebTypingsInstallerServer task) ''/cache/package.json'' = Some privateManifest
   \<and> host (initialize example_library example_packageManager
               [''/cache/package.json'' \<mapsto> ''{}''] ''/cache''
             :: unit WebTypingsInstallerServer task) ''/cache/package.json'' = Some ''{}''
   \<and> (\<exists>rest. effects (initialize example_library example_packageManager Map.empty ''/cache''
                  :: unit WebTypingsInstallerServer task) =
          WriteFile ''/cache/package.json'' privateManifest
          # ResolveProject [''/cache/package.json'' \<mapsto> privateManifest] ''/cache''
              \<lparr>addPackages = [''types-registry''], packageType = None\<rparr>
          # rest)
   \<and> (\<exists>rest. effects (initialize example_library example_packageManager
                    [''/cache/package.json'' \<mapsto> ''{}''] ''/cache''
                  :: unit WebTypingsInstallerServer task) =
          ResolveProject [''/cache/package.json'' \<mapsto> ''{}''] ''/cache''
              \<lparr>addPackages = [''types-registry''], packageType = None\<rparr>
          # rest)"
  using initialize_creates_manifest [of Map.empty example_library "''/cache''" example_packageManager, where 'q = unit]
    initialize_creates_manifest [of "[''/cache/package.json'' \<mapsto> ''{}'']" example_library "''/cache''"
           example_packageManager, where 'q = unit]
  by (auto simp: fileExists_def example_library_def resolveAndRestore_def
        example_packageManager_def)

section \<open>Requests and responses of the client\<close>

text \<open>
  C7. \<^verbatim>\<open>installPackage\<close> fails for every argument and every state of the client, with the
  error \<^verbatim>\<open>not implemented\<close>, and leaves the client as it was: the request is neither carried
  out nor passed over in silence.
\<close>

theorem installPackage_not_implemented:
  "installPackage options c = (Inl (Error ''not implemented''), c)"
  by (simp add: installPackage_def)

text \<open>
  C8. \<^verbatim>\<open>handleResponse\<close> forwards a response tagged \<^verbatim>\<open>action::packageInstalled\<close>,
  \<^verbatim>\<open>action::invalidate\<close> or \<^verbatim>\<open>action::set\<close> to the attached project service; it accepts one
  tagged \<^verbatim>\<open>event::beginInstallTypes\<close> or \<^verbatim>\<open>event::endInstallTypes\<close> and does nothing; for every
  other tag it fails with the error \<^verbatim>\<open>unexpected response\<close>.
\<close>

theorem handleResponse_dispatch:
  "(kind r \<in> {''action::packageInstalled'', ''action::invalidate'', ''action::set''}
      \<and> projectService c = Some ps
     \<longrightarrow> handleResponse r c =
          (Inr (), c\<lparr>projectService := Some (ps\<lparr>updates := updates ps @ [r]\<rparr>)\<rparr>))
   \<and> (kind r \<in> {''event::beginInstallTypes'', ''event::endInstallTypes''}
     \<longrightarrow> handleResponse r c = (Inr (), c))
   \<and> (kind r \<notin> {''action::packageInstalled'', ''action::invalidate'', ''action::set'',
                  ''event::beginInstallTypes'', ''event::endInstallTypes''}
     \<longrightarrow> handleResponse r c = (Inl (Error ''unexpected response: [object Object]''), c))"
  by (auto simp: handleResponse_def updateTypingsForProject_def)

theorem handleResponse_dispatch_witness:
  "handleResponse \<lparr>kind = ''action::set'', payload = ()\<rparr>
      (attach \<lparr>updates = []\<rparr> (new_client :: (unit, unit) WebTypingsInstallerClient)) =
     (Inr (), (attach \<lparr>updates = []\<rparr> new_client)
        \<lparr>projectService := Some \<lparr>updates = [\<lparr>kind = ''action::set'', payload = ()\<rparr>]\<rparr>\<rparr>)
   \<and> handleResponse \<lparr>kind = ''event::endInstallTypes'', payload = ()\<rparr>
        (new_client :: (unit, unit) WebTypingsInstallerClient) = (Inr (), new_client)
   \<and> handleResponse \<lparr>kind = ''action::other'', payload = ()\<rparr>
        (new_client :: (unit, unit) WebTypingsInstallerClient) =
       (Inl (Error ''unexpected response: [object Object]''), new_client)"
  using handleResponse_dispatch [of "\<lparr>kind = ''action::set'', payload = ()\<rparr>"
              "attach \<lparr>updates = []\<rparr> (new_client :: (unit, unit) WebTypingsInstallerClient)"
              "\<lparr>updates = []\<rparr>"]
    handleResponse_dispatch [of "\<lparr>kind = ''event::endInstallTypes'', payload = ()\<rparr>"
           "new_client :: (unit, unit) WebTypingsInstallerClient"]
    handleResponse_dispatch [of "\<lparr>kind = ''action::other'', payload = ()\<rparr>"
           "new_client :: (unit, unit) WebTypingsInstallerClient"]
  by (simp add: attach_def new_client_def)

text \<open>
  C9. A \<^verbatim>\<open>WatchTypingLocations\<close> response belongs to the type \<^verbatim>\<open>InstallerResponse\<close>, but no case of
  the \<^verbatim>\<open>switch\<close> matches its tag: in every state of the client it reaches the default branch
  and fails with \<^verbatim>\<open>unexpected response\<close>, and the client is left as it was.
\<close>

theorem handleResponse_WatchTypingLocations:
  "handleResponse (WatchTypingLocations p) c =
     (Inl (Error ''unexpected response: [object Object]''), c)"
  by (simp add: handleResponse_def WatchTypingLocations_def ActionWatchTypingLocations_def)

text \<open>
  C10. For a response tagged \<^verbatim>\<open>action::packageInstalled\<close>, \<^verbatim>\<open>action::invalidate\<close> or
  \<^verbatim>\<open>action::set\<close>, delivered to a client after any events \<open>es\<close> since its construction:
  \<^verbatim>\<open>handleResponse\<close> fails on the missing project service exactly when \<open>es\<close> holds no call of
  \<^verbatim>\<open>attach\<close>, and succeeds when it holds one.
\<close>

theorem handleResponse_needs_attach:
  assumes "kind r = ''action::packageInstalled'' \<or> kind r = ''action::invalidate''
           \<or> kind r = ''action::set''"
  shows "fst (handleResponse r (run v es new_client)) =
           (if \<forall>ps. Attach ps \<notin> set es then Inl TypeError else Inr ())"
proof -
  have "projectService (run v es new_client) = None \<longleftrightarrow> (\<forall>ps. Attach ps \<notin> set es)"
    by (simp add: run_projectService_None new_client_def)
  with assms show ?thesis
    by (auto simp: handleResponse_def split: option.splits)
qed

theorem handleResponse_needs_attach_witness:
  "fst (handleResponse \<lparr>kind = ''action::set'', payload = ()\<rparr>
          (run example_validator [IsKnownTypesPackageName ''node'']
             (new_client :: (unit, unit) WebTypingsInstallerClient))) = Inl TypeError
   \<and> fst (handleResponse \<lparr>kind = ''action::set'', payload = ()\<rparr>
          (run example_validator [IsKnownTypesPackageName ''node'', Attach \<lparr>updates = []\<rparr>]
             (new_client :: (unit, unit) WebTypingsInstallerClient))) = Inr ()"
  using handleResponse_needs_attach
      [of "\<lparr>kind = ''action::set'', payload = ()\<rparr>" example_validator
          "[IsKnownTypesPackageName ''node''] :: (unit, unit) event list"]
    handleResponse_needs_attach
      [of "\<lparr>kind = ''action::set'', payload = ()\<rparr>" example_validator
          "[IsKnownTypesPackageName ''node'', Attach \<lparr>updates = []\<rparr>] :: (unit, unit) event list"]
  by simp

end
